theory Spec2Isabelle
  imports Complex_Main "HOL-Library.Word" "HOL-Library.AList"
begin

section \<open>JavaScript values\<close>

text \<open>
  A JavaScript string is a sequence of UTF-16 code units. The regular expressions of
  \<^verbatim>\<open>utils.js\<close> carry no \<^verbatim>\<open>u\<close> flag, so they match code unit by code unit.
\<close>

type_synonym jschar = "16 word"
type_synonym jsstring = "jschar list"

definition ch :: "char \<Rightarrow> jschar" where
  "ch c = word_of_nat (of_char c)"

definition str :: "string \<Rightarrow> jsstring" where
  "str s = map ch s"

text \<open>
  A JavaScript number is a double: a finite value is a rational, the rest are the three
  special values. Both zeros are \<open>Fin 0\<close>; nothing below tells them apart.
\<close>

datatype jsnum = NaN | PosInf | NegInf | Fin rat

datatype jsval =
    Undefined
  | Null
  | Bool bool
  | Num jsnum
  | BigInt int
  | Str jsstring
  | Symbol nat
  | Func nat
  | Arr "jsval list"
  | Obj "(jsstring \<times> jsval) list"

text \<open>The result of \<^verbatim>\<open>typeof\<close>.\<close>

datatype jstype =
  T_undefined | T_object | T_boolean | T_number | T_bigint | T_string | T_symbol | T_function

fun typeof :: "jsval \<Rightarrow> jstype" where
  "typeof Undefined = T_undefined"
| "typeof Null = T_object"
| "typeof (Bool _) = T_boolean"
| "typeof (Num _) = T_number"
| "typeof (BigInt _) = T_bigint"
| "typeof (Str _) = T_string"
| "typeof (Symbol _) = T_symbol"
| "typeof (Func _) = T_function"
| "typeof (Arr _) = T_object"
| "typeof (Obj _) = T_object"

text \<open>\<^verbatim>\<open>ToBoolean\<close>: what \<^verbatim>\<open>if (x)\<close>, \<^verbatim>\<open>!x\<close> and \<^verbatim>\<open>x || y\<close> test.\<close>

fun truthy :: "jsval \<Rightarrow> bool" where
  "truthy Undefined = False"
| "truthy Null = False"
| "truthy (Bool b) = b"
| "truthy (Num NaN) = False"
| "truthy (Num (Fin q)) = (q \<noteq> 0)"
| "truthy (Num _) = True"
| "truthy (BigInt i) = (i \<noteq> 0)"
| "truthy (Str s) = (s \<noteq> [])"
| "truthy _ = True"

fun isArray :: "jsval \<Rightarrow> bool" where
  "isArray (Arr _) = True"
| "isArray _ = False"

text \<open>The decimal digits of an array index, as \<^verbatim>\<open>Object.keys\<close> lists it.\<close>

function index_key :: "nat \<Rightarrow> jsstring" where
  "index_key n =
     (if n < 10 then [word_of_nat (48 + n)]
      else index_key (n div 10) @ [word_of_nat (48 + n mod 10)])"
  by pat_completeness auto
termination
  by (relation "measure (\<lambda>n. n)") auto

declare index_key.simps [simp del]

text \<open>
  The own enumerable string-keyed properties of a value, in the order \<^verbatim>\<open>Object.keys\<close>
  lists them. An object is the list of its properties in insertion order.
\<close>

fun own_entries :: "jsval \<Rightarrow> (jsstring \<times> jsval) list" where
  "own_entries (Obj kvs) = kvs"
| "own_entries (Arr xs) = zip (map index_key [0..<length xs]) xs"
| "own_entries (Str s) = zip (map index_key [0..<length s]) (map (\<lambda>c. Str [c]) s)"
| "own_entries _ = []"

definition Object_keys :: "jsval \<Rightarrow> jsstring list" where
  "Object_keys v = map fst (own_entries v)"

text \<open>
  \<^verbatim>\<open>v[key]\<close> and \<^verbatim>\<open>v.key\<close> for the keys read in \<^verbatim>\<open>utils.js\<close>: an own property, or
  \<^verbatim>\<open>undefined\<close>.
\<close>

definition get_prop :: "jsval \<Rightarrow> jsstring \<Rightarrow> jsval" where
  "get_prop v k = (case map_of (own_entries v) k of Some x \<Rightarrow> x | None \<Rightarrow> Undefined)"

text \<open>\<^verbatim>\<open>Object.hasOwn\<close>; arrays and strings own \<^verbatim>\<open>length\<close> besides their indices.\<close>

fun has_length :: "jsval \<Rightarrow> bool" where
  "has_length (Arr _) = True"
| "has_length (Str _) = True"
| "has_length _ = False"

definition hasOwn :: "jsval \<Rightarrow> jsstring \<Rightarrow> bool" where
  "hasOwn v k \<longleftrightarrow> k \<in> set (Object_keys v) \<or> (has_length v \<and> k = str ''length'')"

text \<open>\<^verbatim>\<open>obj[key] = v\<close> on an object: in place when the key exists, appended otherwise.\<close>

fun set_prop :: "jsval \<Rightarrow> jsstring \<Rightarrow> jsval \<Rightarrow> jsval" where
  "set_prop (Obj kvs) k v = Obj (AList.update k v kvs)"
| "set_prop x k v = x"

section \<open>Errors\<close>

text \<open>
  One constructor for each \<^verbatim>\<open>throw\<close> of \<^verbatim>\<open>utils.js\<close>, and for each exception of the
  platform that the modelled calls can raise.
\<close>

datatype error =
    Merge_missing_argument
      \<comment> \<open>Both 'current' and 'updates' must be passed-in to mergeObjects()\<close>
  | Data_clone_error
      \<comment> \<open>\<^verbatim>\<open>structuredClone\<close> of a function or a symbol\<close>
  | Config_not_object
      \<comment> \<open>Config must be an object.\<close>
  | HasOwn_of_null
      \<comment> \<open>the \<^verbatim>\<open>TypeError\<close> of \<^verbatim>\<open>Object.hasOwn(null, ...)\<close>\<close>
  | Tab_size_not_number jstype
      \<comment> \<open>tab_size must be a number, not ...\<close>
  | Tab_size_not_safe jsnum
      \<comment> \<open>Tab size ... is not safe.\<close>
  | Tab_size_out_of_range
      \<comment> \<open>Tab size out of range. Expecting 1 to 16.\<close>
  | Ignore_not_string_array
      \<comment> \<open>Ignore config must be an array of strings.\<close>
  | Ignore_with_not_string jstype
      \<comment> \<open>Ignore_with config must be a string, not ...\<close>
  | Strict_not_boolean jstype
      \<comment> \<open>Strict config must be a boolean, not ...\<close>
  | Tag_wrap_not_boolean jstype
      \<comment> \<open>tag_wrap config must be a boolean, not ...\<close>
  | Tag_wrap_width_not_number jstype
      \<comment> \<open>tag_wrap_width config must be a number, not ...\<close>
  | Trim_not_string_array
      \<comment> \<open>Trim config must be an array of strings.\<close>

section \<open>The default configuration\<close>

definition k_ignore :: jsstring where "k_ignore = str ''ignore''"
definition k_ignore_with :: jsstring where "k_ignore_with = str ''ignore_with''"
definition k_strict :: jsstring where "k_strict = str ''strict''"
definition k_tab_size :: jsstring where "k_tab_size = str ''tab_size''"
definition k_tag_wrap :: jsstring where "k_tag_wrap = str ''tag_wrap''"
definition k_tag_wrap_width :: jsstring where "k_tag_wrap_width = str ''tag_wrap_width''"
definition k_trim :: jsstring where "k_trim = str ''trim''"

text \<open>\<^verbatim>\<open>ATTRIBUTE_IGNORE_STRING\<close>; the pound sign is the code unit U+00A3.\<close>

definition ATTRIBUTE_IGNORE_STRING :: jsstring where
  "ATTRIBUTE_IGNORE_STRING = str ''!i-'' @ [0xA3] @ str ''___'' @ [0xA3] @ str ''%_''"

definition CONFIG :: jsval where
  "CONFIG = Obj
     [(k_ignore, Arr []),
      (k_ignore_with, Str (str ''_'' @ ATTRIBUTE_IGNORE_STRING)),
      (k_strict, Bool False),
      (k_tab_size, Num (Fin 2)),
      (k_tag_wrap, Bool False),
      (k_tag_wrap_width, Num (Fin 80)),
      (k_trim, Arr [])]"

section \<open>Merging objects\<close>

text \<open>
  \<^verbatim>\<open>structuredClone\<close> copies a value deeply and fails on what cannot be cloned. Values
  here carry no identity, so the copy of a value is the value.
\<close>

fun cloneable :: "jsval \<Rightarrow> bool" where
  "cloneable (Symbol _) = False"
| "cloneable (Func _) = False"
| "cloneable (Arr xs) = (\<forall>x \<in> set xs. cloneable x)"
| "cloneable (Obj kvs) = (\<forall>p \<in> set kvs. cloneable (snd p))"
| "cloneable _ = True"

definition structuredClone :: "jsval \<Rightarrow> error + jsval" where
  "structuredClone v = (if cloneable v then Inr v else Inl Data_clone_error)"

text \<open>\<^verbatim>\<open>xs.concat(u)\<close>: an array argument is spread, any other value is appended.\<close>

fun array_concat :: "jsval \<Rightarrow> jsval \<Rightarrow> jsval" where
  "array_concat (Arr xs) (Arr ys) = Arr (xs @ ys)"
| "array_concat (Arr xs) u = Arr (xs @ [u])"
| "array_concat c u = c"

text \<open>\<^verbatim>\<open>x || {}\<close>\<close>

definition or_empty :: "jsval \<Rightarrow> jsval" where
  "or_empty x = (if truthy x then x else Obj [])"

lemma size_own_entries:
  "map_of (own_entries u) k = Some v \<Longrightarrow> typeof v = T_object \<Longrightarrow> size v < size u"
proof (cases u)
  case (Obj kvs)
  assume "map_of (own_entries u) k = Some v"
  then have "(k, v) \<in> set kvs"
    using Obj by (auto dest: map_of_SomeD)
  then have "size v < Suc (size_list (size_prod (\<lambda>_. 0) size) kvs)"
    by (induction kvs) auto
  then show ?thesis using Obj by simp
next
  case (Arr xs)
  assume "map_of (own_entries u) k = Some v"
  then have "v \<in> set xs"
    using Arr by (auto dest!: map_of_SomeD set_zip_rightD)
  then have "size v < Suc (size_list size xs)"
    by (induction xs) auto
  then show ?thesis using Arr by simp
next
  case (Str s)
  assume "map_of (own_entries u) k = Some v" "typeof v = T_object"
  then show ?thesis
    using Str by (auto dest!: map_of_SomeD set_zip_rightD)
qed auto

text \<open>
  \<^verbatim>\<open>mergeObjects\<close>. \<open>merge_keys updates keys merged\<close> is the \<^verbatim>\<open>for\<close> loop over
  \<^verbatim>\<open>Object.keys(updates)\<close>, with the keys still to visit and the object built so far;
  \<^verbatim>\<open>{ ...current }\<close> is a fresh object with the properties of \<open>current\<close>.
\<close>

function mergeObjects :: "jsval \<Rightarrow> jsval \<Rightarrow> error + jsval"
  and merge_keys :: "jsval \<Rightarrow> jsstring list \<Rightarrow> jsval \<Rightarrow> error + jsval"
where
  "mergeObjects current updates =
     (if \<not> truthy current \<or> \<not> truthy updates then Inl Merge_missing_argument
      else if isArray current then
        (case structuredClone current of
           Inl e \<Rightarrow> Inl e
         | Inr c \<Rightarrow> Inr (array_concat c updates))
      else if typeof current = T_object then merge_keys updates (Object_keys updates) current
      else Inr Undefined)"
| "merge_keys updates [] merged = Inr merged"
| "merge_keys updates (key # keys) merged =
     (if typeof (get_prop updates key) \<noteq> T_object
      then merge_keys updates keys (set_prop merged key (get_prop updates key))
      else
        (case mergeObjects (or_empty (get_prop merged key)) (get_prop updates key) of
           Inl e \<Rightarrow> Inl e
         | Inr m \<Rightarrow> merge_keys updates keys (set_prop merged key m)))"
  by pat_completeness auto
termination
proof (relation "inv_image (less_than <*lex*> less_than)
    (\<lambda>x. case x of
        Inl (current, updates) \<Rightarrow> (size updates, Suc (length (Object_keys updates)))
      | Inr (updates, keys, merged) \<Rightarrow> (size updates, length keys))")
  show "wf (inv_image (less_than <*lex*> less_than)
    (\<lambda>x. case x of
        Inl (current, updates) \<Rightarrow> (size updates, Suc (length (Object_keys updates)))
      | Inr (updates, keys, merged) \<Rightarrow> (size updates, length keys)))"
    by (intro wf_inv_image wf_lex_prod wf_less_than)
next
  fix updates :: jsval and key :: jsstring and keys :: "jsstring list" and merged :: jsval
  assume "\<not> typeof (get_prop updates key) \<noteq> T_object"
  then have t: "typeof (get_prop updates key) = T_object" by simp
  then obtain v where "map_of (own_entries updates) key = Some v" "get_prop updates key = v"
    by (cases "map_of (own_entries updates) key") (auto simp: get_prop_def)
  with t have "size (get_prop updates key) < size updates"
    using size_own_entries by metis
  then show "(Inl (or_empty (get_prop merged key), get_prop updates key),
              Inr (updates, key # keys, merged))
        \<in> inv_image (less_than <*lex*> less_than)
            (\<lambda>x. case x of
                Inl (current, updates) \<Rightarrow> (size updates, Suc (length (Object_keys updates)))
              | Inr (updates, keys, merged) \<Rightarrow> (size updates, length keys))"
    by simp
qed auto

declare mergeObjects.simps [simp del]

text \<open>\<^verbatim>\<open>mergeConfig\<close>\<close>

definition mergeConfig :: "jsval \<Rightarrow> jsval \<Rightarrow> error + jsval" where
  "mergeConfig dconfig config =
     (case structuredClone dconfig of
        Inl e \<Rightarrow> Inl e
      | Inr d \<Rightarrow> mergeObjects d config)"

section \<open>Validating a configuration\<close>

text \<open>\<^verbatim>\<open>Number.isSafeInteger\<close>, \<^verbatim>\<open>Math.floor\<close> and \<^verbatim>\<open><\<close> on numbers.\<close>

fun isSafeInteger :: "jsnum \<Rightarrow> bool" where
  "isSafeInteger (Fin q) = (of_int \<lfloor>q\<rfloor> = q \<and> \<bar>q\<bar> \<le> 2 ^ 53 - 1)"
| "isSafeInteger _ = False"

fun math_floor :: "jsnum \<Rightarrow> jsnum" where
  "math_floor (Fin q) = Fin (of_int \<lfloor>q\<rfloor>)"
| "math_floor n = n"

fun num_less :: "jsnum \<Rightarrow> jsnum \<Rightarrow> bool" where
  "num_less (Fin a) (Fin b) = (a < b)"
| "num_less (Fin a) PosInf = True"
| "num_less NegInf (Fin b) = True"
| "num_less NegInf PosInf = True"
| "num_less _ _ = False"

text \<open>
  \<^verbatim>\<open>Array.isArray(v) && v.every((e) => typeof e === 'string')\<close>
\<close>

fun array_of_strings :: "jsval \<Rightarrow> bool" where
  "array_of_strings (Arr xs) = list_all (\<lambda>e. typeof e = T_string) xs"
| "array_of_strings _ = False"

text \<open>
  The state a call of \<^verbatim>\<open>validateConfig\<close> can reach: the object the caller passes, and the
  module's \<^verbatim>\<open>CONFIG\<close> object.
\<close>

record store =
  caller_config :: jsval
  shared_config :: jsval

definition initial_store :: "jsval \<Rightarrow> store" where
  "initial_store config = \<lparr>caller_config = config, shared_config = CONFIG\<rparr>"

text \<open>Lines 246 to 262: the check of \<^verbatim>\<open>tab_size\<close>, which writes it back.\<close>

definition check_tab_size :: "store \<Rightarrow> error + store" where
  "check_tab_size s =
     (let tab_size = get_prop (caller_config s) k_tab_size in
      if truthy tab_size then
        (case tab_size of
           Num n \<Rightarrow>
             if \<not> isSafeInteger n then Inl (Tab_size_not_safe n)
             else
               let t = math_floor n in
               if num_less t (Fin 1) \<or> num_less (Fin 16) t then Inl Tab_size_out_of_range
               else Inr (s\<lparr>caller_config := set_prop (caller_config s) k_tab_size (Num t)\<rparr>)
         | _ \<Rightarrow> Inl (Tab_size_not_number (typeof tab_size)))
      else Inr s)"

text \<open>Lines 264 to 280: the checks of the other six keys, in the order of the source.\<close>

definition check_fields :: "jsval \<Rightarrow> error option" where
  "check_fields config =
     (if hasOwn config k_ignore \<and> \<not> array_of_strings (get_prop config k_ignore)
        then Some Ignore_not_string_array
      else if hasOwn config k_ignore_with \<and> typeof (get_prop config k_ignore_with) \<noteq> T_string
        then Some (Ignore_with_not_string (typeof (get_prop config k_ignore_with)))
      else if hasOwn config k_strict \<and> typeof (get_prop config k_strict) \<noteq> T_boolean
        then Some (Strict_not_boolean (typeof (get_prop config k_strict)))
      else if hasOwn config k_tag_wrap \<and> typeof (get_prop config k_tag_wrap) \<noteq> T_boolean
        then Some (Tag_wrap_not_boolean (typeof (get_prop config k_tag_wrap)))
      else if hasOwn config k_tag_wrap_width
              \<and> typeof (get_prop config k_tag_wrap_width) \<noteq> T_number
        then Some (Tag_wrap_width_not_number (typeof (get_prop config k_tag_wrap_width)))
      else if hasOwn config k_trim \<and> \<not> array_of_strings (get_prop config k_trim)
        then Some Trim_not_string_array
      else None)"

definition config_empty :: "jsval \<Rightarrow> bool" where
  "config_empty config \<longleftrightarrow>
     \<not> (hasOwn config k_ignore \<or> hasOwn config k_ignore_with \<or> hasOwn config k_strict
        \<or> hasOwn config k_tab_size \<or> hasOwn config k_tag_wrap
        \<or> hasOwn config k_tag_wrap_width \<or> hasOwn config k_trim)"

text \<open>
  \<^verbatim>\<open>validateConfig\<close>: the value returned or the error thrown, and the store the call
  leaves behind.
\<close>

definition validateConfig :: "store \<Rightarrow> (error + jsval) \<times> store" where
  "validateConfig s =
     (if typeof (caller_config s) \<noteq> T_object then (Inl Config_not_object, s)
      else if caller_config s = Null then (Inl HasOwn_of_null, s)
      else if config_empty (caller_config s) then (Inr (shared_config s), s)
      else
        (case check_tab_size s of
           Inl e \<Rightarrow> (Inl e, s)
         | Inr s' \<Rightarrow>
             (case check_fields (caller_config s') of
                Some e \<Rightarrow> (Inl e, s')
              | None \<Rightarrow> (mergeConfig (shared_config s') (caller_config s'), s'))))"

section \<open>Regular expressions\<close>

text \<open>
  The patterns of \<^verbatim>\<open>utils.js\<close> use literals, classes, sequence, alternation, the greedy
  and the lazy star, the plus and capture groups. \<open>Eps\<close> is the empty pattern.
\<close>

datatype regex =
    Eps
  | Lit jschar
  | Class "jschar \<Rightarrow> bool"
  | Cat regex regex
  | Or regex regex
  | Star regex
  | Lazy regex
  | Group nat regex

definition Plus :: "regex \<Rightarrow> regex" where
  "Plus r = Cat r (Star r)"

type_synonym captures = "nat \<Rightarrow> jsstring option"

fun groups :: "regex \<Rightarrow> nat list" where
  "groups (Cat a b) = groups a @ groups b"
| "groups (Or a b) = groups a @ groups b"
| "groups (Star r) = groups r"
| "groups (Lazy r) = groups r"
| "groups (Group n r) = n # groups r"
| "groups _ = []"

definition clear :: "nat list \<Rightarrow> captures \<Rightarrow> captures" where
  "clear ns cs = (\<lambda>n. if n \<in> set ns then None else cs n)"

text \<open>
  The backtracking matcher of ECMAScript, as the list of all the ways a pattern can match
  at the start of a string, in the order the engine tries them: each is the captures and
  the rest of the string. A star tries one more round first, a lazy star tries to stop
  first; a round that consumes nothing is rejected, and a round starts with the captures
  of its groups cleared.
\<close>

function matches :: "regex \<Rightarrow> captures \<times> jsstring \<Rightarrow> (captures \<times> jsstring) list" where
  "matches Eps st = [st]"
| "matches (Lit c) (cs, s) =
     (case s of [] \<Rightarrow> [] | x # t \<Rightarrow> if x = c then [(cs, t)] else [])"
| "matches (Class P) (cs, s) =
     (case s of [] \<Rightarrow> [] | x # t \<Rightarrow> if P x then [(cs, t)] else [])"
| "matches (Cat a b) st = concat (map (matches b) (matches a st))"
| "matches (Or a b) st = matches a st @ matches b st"
| "matches (Star r) (cs, s) =
     concat (map (matches (Star r))
       (filter (\<lambda>st'. length (snd st') < length s) (matches r (clear (groups r) cs, s))))
     @ [(cs, s)]"
| "matches (Lazy r) (cs, s) =
     (cs, s) #
     concat (map (matches (Lazy r))
       (filter (\<lambda>st'. length (snd st') < length s) (matches r (clear (groups r) cs, s))))"
| "matches (Group n r) (cs, s) =
     map (\<lambda>st'. ((fst st')(n \<mapsto> take (length s - length (snd st')) s), snd st'))
       (matches r (cs, s))"
  by pat_completeness auto
termination
  by (relation "inv_image (less_than <*lex*> less_than) (\<lambda>(r, st). (size r, length (snd st)))")
     auto

text \<open>
  The first match at the start of a string: the matched text, the captures and the rest.
\<close>

definition regex_exec :: "regex \<Rightarrow> jsstring \<Rightarrow> (jsstring \<times> captures \<times> jsstring) option" where
  "regex_exec r s =
     (case matches r (Map.empty, s) of
        [] \<Rightarrow> None
      | st # _ \<Rightarrow> Some (take (length s - length (snd st)) s, fst st, snd st))"

lemma regex_exec_shorter:
  assumes "regex_exec r s = Some (m, cs, rest)" and "m \<noteq> []"
  shows "length rest < length s"
proof -
  from assms(1) have "m = take (length s - length rest) s"
    by (auto simp: regex_exec_def split: list.splits)
  with assms(2) show ?thesis
    by (cases "length rest < length s") auto
qed

text \<open>
  \<^verbatim>\<open>s.replace(r, f)\<close> for a regular expression with the \<^verbatim>\<open>g\<close> flag: the matches are
  found from left to right, the search resuming where the last match ended (one code unit
  further when the match was empty). \<open>f\<close> receives the matched text, the captures, the text
  preceding the match and the text following it. \<open>preceding\<close> is the input already passed.
\<close>

function replace_global ::
  "regex \<Rightarrow> (jsstring \<Rightarrow> captures \<Rightarrow> jsstring \<Rightarrow> jsstring \<Rightarrow> jsstring)
     \<Rightarrow> jsstring \<Rightarrow> jsstring \<Rightarrow> jsstring" where
  "replace_global r f preceding s =
     (case regex_exec r s of
        None \<Rightarrow>
          (case s of [] \<Rightarrow> [] | x # t \<Rightarrow> x # replace_global r f (preceding @ [x]) t)
      | Some (m, cs, rest) \<Rightarrow>
          if m = [] then
            f m cs preceding rest @
            (case s of [] \<Rightarrow> [] | x # t \<Rightarrow> x # replace_global r f (preceding @ [x]) t)
          else f m cs preceding rest @ replace_global r f (preceding @ m) rest)"
  by pat_completeness auto
termination
  by (relation "measure (\<lambda>(r, f, preceding, s). length s)")
     (auto dest: regex_exec_shorter)

declare replace_global.simps [simp del]

text \<open>
  A replacement given as a string is a template (\<^verbatim>\<open>GetSubstitution\<close>): \<^verbatim>\<open>$$\<close> is a
  dollar, \<^verbatim>\<open>$&\<close> the matched text, \<^verbatim>\<open>$`\<close> and \<^verbatim>\<open>$'\<close> the text preceding and following
  the match, \<^verbatim>\<open>$n\<close> and \<^verbatim>\<open>$nn\<close> a capture when the pattern has that many groups. \<open>n\<close>
  is the number of groups of the pattern.
\<close>

definition is_digit :: "jschar \<Rightarrow> bool" where
  "is_digit c \<longleftrightarrow> 0x30 \<le> c \<and> c \<le> 0x39"

definition digit_value :: "jschar \<Rightarrow> nat" where
  "digit_value c = unat c - 48"

definition capture_text :: "captures \<Rightarrow> nat \<Rightarrow> jsstring" where
  "capture_text cs i = (case cs i of None \<Rightarrow> [] | Some x \<Rightarrow> x)"

fun expand_template ::
  "nat \<Rightarrow> jsstring \<Rightarrow> jsstring \<Rightarrow> captures \<Rightarrow> jsstring \<Rightarrow> jsstring \<Rightarrow> jsstring" where
  "expand_template n [] m cs pre post = []"
| "expand_template n [c] m cs pre post = [c]"
| "expand_template n (c # d # t) m cs pre post =
     (if c \<noteq> ch CHR ''$'' then c # expand_template n (d # t) m cs pre post
      else if d = ch CHR ''$'' then ch CHR ''$'' # expand_template n t m cs pre post
      else if d = ch CHR ''&'' then m @ expand_template n t m cs pre post
      else if d = ch CHR ''`'' then pre @ expand_template n t m cs pre post
      else if d = 0x27 then post @ expand_template n t m cs pre post
      else if is_digit d then
        (case t of
           e # t' \<Rightarrow>
             if is_digit e \<and> 10 * digit_value d + digit_value e \<le> n then
               (if 1 \<le> 10 * digit_value d + digit_value e
                then capture_text cs (10 * digit_value d + digit_value e)
                       @ expand_template n t' m cs pre post
                else c # d # e # expand_template n t' m cs pre post)
             else if 1 \<le> digit_value d \<and> digit_value d \<le> n
               then capture_text cs (digit_value d) @ expand_template n t m cs pre post
             else c # d # expand_template n t m cs pre post
         | [] \<Rightarrow>
             if 1 \<le> digit_value d \<and> digit_value d \<le> n
               then capture_text cs (digit_value d)
             else [c, d])
      else c # expand_template n (d # t) m cs pre post)"

text \<open>\<^verbatim>\<open>s.replace(r, template)\<close> with the \<^verbatim>\<open>g\<close> flag.\<close>

definition replace_template :: "regex \<Rightarrow> jsstring \<Rightarrow> jsstring \<Rightarrow> jsstring" where
  "replace_template r template s =
     replace_global r (expand_template (length (groups r)) template) [] s"

text \<open>
  \<^verbatim>\<open>s.replace(pattern, f)\<close> for a string pattern: only the first occurrence of the
  pattern is replaced, by what \<open>f\<close> returns for it; the empty pattern occurs at the start.
\<close>

fun find_first :: "jsstring \<Rightarrow> jsstring \<Rightarrow> (jsstring \<times> jsstring) option" where
  "find_first pat [] = (if pat = [] then Some ([], []) else None)"
| "find_first pat (x # t) =
     (if take (length pat) (x # t) = pat then Some ([], drop (length pat) (x # t))
      else map_option (\<lambda>(a, b). (x # a, b)) (find_first pat t))"

definition replace_string :: "jsstring \<Rightarrow> (jsstring \<Rightarrow> jsstring) \<Rightarrow> jsstring \<Rightarrow> jsstring" where
  "replace_string pat f s =
     (case find_first pat s of None \<Rightarrow> s | Some (a, b) \<Rightarrow> a @ f pat @ b)"

text \<open>The classes \<^verbatim>\<open>\s\<close>, \<^verbatim>\<open>\w\<close> and \<^verbatim>\<open>.\<close> of ECMAScript, on code units.\<close>

definition is_space :: "jschar \<Rightarrow> bool" where
  "is_space c \<longleftrightarrow>
     c \<in> {0x09, 0x0A, 0x0B, 0x0C, 0x0D, 0x20, 0xA0, 0x1680, 0x2028, 0x2029, 0x202F, 0x205F,
          0x3000, 0xFEFF}
     \<or> (0x2000 \<le> c \<and> c \<le> 0x200A)"

definition is_word :: "jschar \<Rightarrow> bool" where
  "is_word c \<longleftrightarrow>
     (0x61 \<le> c \<and> c \<le> 0x7A) \<or> (0x41 \<le> c \<and> c \<le> 0x5A) \<or> (0x30 \<le> c \<and> c \<le> 0x39)
     \<or> c = 0x5F"

definition is_dot :: "jschar \<Rightarrow> bool" where
  "is_dot c \<longleftrightarrow> c \<notin> {0x0A, 0x0D, 0x2028, 0x2029}"

definition newline :: jschar where "newline = 0x0A"
definition carriage_return :: jschar where "carriage_return = 0x0D"
definition space :: jschar where "space = 0x20"

text \<open>
  A string put into the source of a \<^verbatim>\<open>new RegExp\<close>. The model covers the strings with
  no syntax character of regular expressions, which match themselves.
\<close>

definition syntax_character :: "jschar \<Rightarrow> bool" where
  "syntax_character c \<longleftrightarrow> c = 0x5C \<or> c \<in> set (str ''^$.*+?()[]{}|'')"

definition literal_source :: "jsstring \<Rightarrow> bool" where
  "literal_source s \<longleftrightarrow> (\<forall>c \<in> set s. \<not> syntax_character c)"

fun literal :: "jsstring \<Rightarrow> regex" where
  "literal [] = Eps"
| "literal (c # s) = Cat (Lit c) (literal s)"

section \<open>Protecting attributes\<close>

text \<open>\<^verbatim>\<open>/<[\w:\-]+([^>]*[^\/])>/g\<close>\<close>

definition attribute_region :: regex where
  "attribute_region =
     Cat (Lit (ch CHR ''<''))
    (Cat (Plus (Class (\<lambda>c. is_word c \<or> c = ch CHR '':'' \<or> c = ch CHR ''-'')))
    (Cat (Group 1 (Cat (Star (Class (\<lambda>c. c \<noteq> ch CHR ''>''))) (Class (\<lambda>c. c \<noteq> ch CHR ''/''))))
         (Lit (ch CHR ''>''))))"

text \<open>The callback of \<^verbatim>\<open>protectAttributes\<close> on the captured text.\<close>

definition protect_text :: "jsstring \<Rightarrow> jsstring" where
  "protect_text m =
     replace_template (Class is_space) (ATTRIBUTE_IGNORE_STRING @ str ''ws!'')
       (replace_template (Lit carriage_return) (ATTRIBUTE_IGNORE_STRING @ str ''cr!'')
         (replace_template (Lit newline) (ATTRIBUTE_IGNORE_STRING @ str ''nl!'') m))"

definition protectAttributes :: "jsstring \<Rightarrow> jsstring" where
  "protectAttributes html =
     replace_global attribute_region
       (\<lambda>match cs preceding following. replace_string (capture_text cs 1) protect_text match)
       [] html"

text \<open>The callback of \<^verbatim>\<open>unprotectAttributes\<close> on the captured text.\<close>

definition unprotect_text :: "jsstring \<Rightarrow> jsstring" where
  "unprotect_text m =
     replace_template (literal (ATTRIBUTE_IGNORE_STRING @ str ''ws!'')) [space]
       (replace_template (literal (ATTRIBUTE_IGNORE_STRING @ str ''cr!'')) [carriage_return]
         (replace_template (literal (ATTRIBUTE_IGNORE_STRING @ str ''nl!'')) [newline] m))"

definition unprotectAttributes :: "jsstring \<Rightarrow> jsstring" where
  "unprotectAttributes html =
     replace_global attribute_region
       (\<lambda>match cs preceding following. replace_string (capture_text cs 1) unprotect_text match)
       [] html"

section \<open>Ignored elements\<close>

text \<open>
  The configuration the string functions receive (\<^verbatim>\<open>import('htmlfy').Config\<close>).
\<close>

record config =
  ignore :: "jsstring list"
  ignore_with :: jsstring
  strict :: bool
  tab_size :: jsnum
  tag_wrap :: bool
  tag_wrap_width :: jsnum
  trim :: "jsstring list"

text \<open>
  \<^verbatim>\<open>new RegExp(`<${name}[^>]*>((.|\n)*?)<\/${name}>`, "g")\<close>; in the template literal
  \<^verbatim>\<open>\n\<close> is a line feed and \<^verbatim>\<open>\/\<close> a slash.
\<close>

definition element_region :: "jsstring \<Rightarrow> regex" where
  "element_region name =
     Cat (Lit (ch CHR ''<''))
    (Cat (literal name)
    (Cat (Star (Class (\<lambda>c. c \<noteq> ch CHR ''>'')))
    (Cat (Lit (ch CHR ''>''))
    (Cat (Group 1 (Lazy (Group 2 (Or (Class is_dot) (Lit newline)))))
    (Cat (Lit (ch CHR ''<''))
    (Cat (Lit (ch CHR ''/''))
    (Cat (literal name)
         (Lit (ch CHR ''>'')))))))))"

text \<open>The callback of \<^verbatim>\<open>setIgnoreElement\<close> on the captured text.\<close>

definition ignore_text :: "jsstring \<Rightarrow> jsstring \<Rightarrow> jsstring" where
  "ignore_text ignore_string m =
     replace_template (Class is_space) (str ''-'' @ ignore_string @ str ''ws-'')
       (replace_template (Lit carriage_return) (str ''-'' @ ignore_string @ str ''cr-'')
         (replace_template (Lit newline) (str ''-'' @ ignore_string @ str ''nl-'')
           (replace_template (Lit (ch CHR ''>'')) (str ''-'' @ ignore_string @ str ''gt-'')
             (replace_template (Lit (ch CHR ''<'')) (str ''-'' @ ignore_string @ str ''lt-'')
                m))))"

text \<open>
  The loop of \<^verbatim>\<open>setIgnoreElement\<close> over \<^verbatim>\<open>config.ignore\<close>. The result is \<open>None\<close> where
  a tag name is outside the patterns the model covers.
\<close>

fun set_ignore_loop :: "jsstring list \<Rightarrow> jsstring \<Rightarrow> jsstring \<Rightarrow> jsstring option" where
  "set_ignore_loop [] ignore_string html = Some html"
| "set_ignore_loop (name # names) ignore_string html =
     (if literal_source name then
        set_ignore_loop names ignore_string
          (replace_global (element_region name)
             (\<lambda>match cs preceding following.
                replace_string (capture_text cs 1) (ignore_text ignore_string) match)
             [] html)
      else None)"

definition setIgnoreElement :: "jsstring \<Rightarrow> config \<Rightarrow> jsstring option" where
  "setIgnoreElement html c = set_ignore_loop (ignore c) (ignore_with c) html"

text \<open>The callback of \<^verbatim>\<open>unsetIgnoreElement\<close> on the captured text.\<close>

definition unignore_text :: "jsstring \<Rightarrow> jsstring \<Rightarrow> jsstring" where
  "unignore_text ignore_string m =
     replace_template (literal (str ''-'' @ ignore_string @ str ''ws-'')) [space]
       (replace_template (literal (str ''-'' @ ignore_string @ str ''cr-'')) [carriage_return]
         (replace_template (literal (str ''-'' @ ignore_string @ str ''nl-'')) [newline]
           (replace_template (literal (str ''-'' @ ignore_string @ str ''gt-'')) (str ''>'')
             (replace_template (literal (str ''-'' @ ignore_string @ str ''lt-'')) (str ''<'')
                m))))"

text \<open>
  The loop of \<^verbatim>\<open>unsetIgnoreElement\<close>; here the sentinel is part of a pattern too.
\<close>

fun unset_ignore_loop :: "jsstring list \<Rightarrow> jsstring \<Rightarrow> jsstring \<Rightarrow> jsstring option" where
  "unset_ignore_loop [] ignore_string html = Some html"
| "unset_ignore_loop (name # names) ignore_string html =
     (if literal_source name \<and> literal_source ignore_string then
        unset_ignore_loop names ignore_string
          (replace_global (element_region name)
             (\<lambda>match cs preceding following.
                replace_string (capture_text cs 1) (unignore_text ignore_string) match)
             [] html)
      else None)"

definition unsetIgnoreElement :: "jsstring \<Rightarrow> config \<Rightarrow> jsstring option" where
  "unsetIgnoreElement html c = unset_ignore_loop (ignore c) (ignore_with c) html"

section \<open>Trimming\<close>

text \<open>
  \<^verbatim>\<open>new RegExp(`(<${name}[^>]*>)\\s+`, "g")\<close> and
  \<^verbatim>\<open>new RegExp(`\\s+(</${name}>)`, "g")\<close>
\<close>

definition leading_whitespace :: "jsstring \<Rightarrow> regex" where
  "leading_whitespace name =
     Cat (Group 1
            (Cat (Lit (ch CHR ''<''))
            (Cat (literal name)
            (Cat (Star (Class (\<lambda>c. c \<noteq> ch CHR ''>'')))
                 (Lit (ch CHR ''>''))))))
         (Plus (Class is_space))"

definition trailing_whitespace :: "jsstring \<Rightarrow> regex" where
  "trailing_whitespace name =
     Cat (Plus (Class is_space))
         (Group 1
            (Cat (Lit (ch CHR ''<''))
            (Cat (Lit (ch CHR ''/''))
            (Cat (literal name)
                 (Lit (ch CHR ''>''))))))"

text \<open>
  \<^verbatim>\<open>trimify\<close>; \<open>None\<close> where a tag name is outside the patterns the model covers.
\<close>

fun trimify :: "jsstring \<Rightarrow> jsstring list \<Rightarrow> jsstring option" where
  "trimify html [] = Some html"
| "trimify html (name # names) =
     (if literal_source name then
        trimify
          (replace_template (trailing_whitespace name) (str ''$1'')
             (replace_template (leading_whitespace name) (str ''$1'') html))
          names
      else None)"

section \<open>The vocabulary of the specification\<close>

text \<open>The seven names \<^verbatim>\<open>validateConfig\<close> tests with \<^verbatim>\<open>Object.hasOwn\<close>.\<close>

definition recognized_keys :: "jsstring list" where
  "recognized_keys =
     [k_ignore, k_ignore_with, k_strict, k_tab_size, k_tag_wrap, k_tag_wrap_width, k_trim]"



section \<open>Properties of the configuration validator\<close>

lemmas key_defs = k_ignore_def k_ignore_with_def k_strict_def k_tab_size_def k_tag_wrap_def
  k_tag_wrap_width_def k_trim_def str_def ch_def

lemma index_key_digits: "c \<in> set (index_key n) \<Longrightarrow> 0x30 \<le> c \<and> c \<le> 0x39"
proof (induction n rule: index_key.induct)
  case (1 n)
  have d: "(0x30 :: jschar) \<le> word_of_nat (48 + m) \<and> (word_of_nat (48 + m) :: jschar) \<le> 0x39"
    if "m < 10" for m :: nat
  proof -
    from that have "m = 0 \<or> m = 1 \<or> m = 2 \<or> m = 3 \<or> m = 4 \<or> m = 5 \<or> m = 6 \<or> m = 7
        \<or> m = 8 \<or> m = 9"
      by arith
    then show ?thesis by auto
  qed
  show ?case
  proof (cases "n < 10")
    case True
    with 1(2) d[of n] show ?thesis by (simp add: index_key.simps[of n])
  next
    case False
    have "n mod 10 < 10" by simp
    from d[OF this] False 1 show ?thesis
      by (auto simp add: index_key.simps[of n])
  qed
qed

lemma recognized_not_index:
  "k \<in> set recognized_keys \<Longrightarrow> k \<noteq> index_key n"
proof
  assume k: "k \<in> set recognized_keys" and e: "k = index_key n"
  from k have "hd k \<in> set k \<and> \<not> ((0x30::jschar) \<le> hd k \<and> hd k \<le> 0x39)"
    by (auto simp: recognized_keys_def key_defs)
  with e index_key_digits show False by blast
qed

lemma recognized_not_length: "k \<in> set recognized_keys \<Longrightarrow> k \<noteq> str ''length''"
  by (auto simp: recognized_keys_def key_defs)

lemma not_hasOwn_Arr: "k \<in> set recognized_keys \<Longrightarrow> \<not> hasOwn (Arr xs) k"
  using recognized_not_index[of k] recognized_not_length[of k]
  by (auto simp: hasOwn_def Object_keys_def)

lemma set_prop_same: "map_of (own_entries c) k = Some v \<Longrightarrow> set_prop c k v = c"
  by (cases c) (simp_all add: update_triv)

lemma safe_floor: "isSafeInteger n \<Longrightarrow> math_floor n = n"
  by (cases n) auto

lemma check_tab_size_frame: "check_tab_size s = Inr s' \<Longrightarrow> s' = s"
proof -
  assume a: "check_tab_size s = Inr s'"
  show ?thesis
  proof (cases "truthy (get_prop (caller_config s) k_tab_size)")
    case False
    with a show ?thesis by (simp add: check_tab_size_def)
  next
    case True
    then obtain v where v: "map_of (own_entries (caller_config s)) k_tab_size = Some v"
      and g: "get_prop (caller_config s) k_tab_size = v"
      by (cases "map_of (own_entries (caller_config s)) k_tab_size") (auto simp: get_prop_def)
    from a True g obtain n where n: "v = Num n" "isSafeInteger n"
      and s': "s' = s\<lparr>caller_config := set_prop (caller_config s) k_tab_size (Num (math_floor n))\<rparr>"
      by (auto simp: check_tab_size_def Let_def split: jsval.splits if_splits)
    from n v have "set_prop (caller_config s) k_tab_size (Num (math_floor n)) = caller_config s"
      by (simp add: safe_floor set_prop_same)
    with s' show ?thesis by simp
  qed
qed



lemma config_empty_iff: "config_empty c \<longleftrightarrow> (\<forall>k \<in> set recognized_keys. \<not> hasOwn c k)"
  by (auto simp: config_empty_def recognized_keys_def)

text \<open>
  C5: for every object or array that owns none of the seven recognized keys, the empty
  object among them, \<^verbatim>\<open>validateConfig\<close> returns the default configuration itself.
\<close>

theorem validateConfig_default:
  "typeof config = T_object \<Longrightarrow> config \<noteq> Null \<Longrightarrow> \<forall>k \<in> set recognized_keys. \<not> hasOwn config k
    \<Longrightarrow> validateConfig (initial_store config) = (Inr CONFIG, initial_store config)"
  by (simp add: validateConfig_def config_empty_iff initial_store_def)

theorem validateConfig_default_witness:
  "typeof (Obj []) = T_object \<and> Obj [] \<noteq> Null
    \<and> list_all (\<lambda>k. \<not> hasOwn (Obj []) k) recognized_keys
    \<and> validateConfig (initial_store (Obj [])) = (Inr CONFIG, initial_store (Obj []))"
  using validateConfig_default [of "Obj []"]
  by (simp add: hasOwn_def Object_keys_def list_all_iff)






lemma get_prop_Obj: "get_prop (Obj m) k = (case map_of m k of Some x \<Rightarrow> x | None \<Rightarrow> Undefined)"
  by (simp add: get_prop_def)

lemma get_prop_update:
  "get_prop (Obj (AList.update k v m)) k' = (if k' = k then v else get_prop (Obj m) k')"
  by (simp add: get_prop_def update_conv')

lemma merge_keys_lookup:
  "distinct ks \<Longrightarrow> merge_keys u ks (Obj m) = Inr r \<Longrightarrow>
     \<exists>m'. r = Obj m'
       \<and> (\<forall>k. k \<notin> set ks \<longrightarrow> map_of m' k = map_of m k)
       \<and> (\<forall>k \<in> set ks. typeof (get_prop u k) \<noteq> T_object \<longrightarrow> map_of m' k = Some (get_prop u k))
       \<and> (\<forall>k \<in> set ks. typeof (get_prop u k) = T_object \<longrightarrow>
             (\<exists>x. mergeObjects (or_empty (get_prop (Obj m) k)) (get_prop u k) = Inr x
                \<and> map_of m' k = Some x))"
proof (induction ks arbitrary: m)
  case Nil
  then show ?case by auto
next
  case (Cons key keys)
  from Cons.prems have d: "distinct keys" and nk: "key \<notin> set keys" by auto
  have same: "get_prop (Obj (AList.update key val m)) k = get_prop (Obj m) k"
    if "k \<in> set keys" for k val
    using that nk by (auto simp: get_prop_update)
  obtain val where
    val: "typeof (get_prop u key) \<noteq> T_object \<longrightarrow> val = get_prop u key"
      "typeof (get_prop u key) = T_object \<longrightarrow>
         mergeObjects (or_empty (get_prop (Obj m) key)) (get_prop u key) = Inr val"
    and r: "merge_keys u keys (Obj (AList.update key val m)) = Inr r"
    using Cons.prems(2) by (cases "typeof (get_prop u key) \<noteq> T_object") (auto split: sum.splits)
  have "\<exists>m'. r = Obj m'
       \<and> (\<forall>k. k \<notin> set keys \<longrightarrow> map_of m' k = map_of (AList.update key val m) k)
       \<and> (\<forall>k \<in> set keys. typeof (get_prop u k) \<noteq> T_object \<longrightarrow> map_of m' k = Some (get_prop u k))
       \<and> (\<forall>k \<in> set keys. typeof (get_prop u k) = T_object \<longrightarrow>
             (\<exists>x. mergeObjects (or_empty (get_prop (Obj m) k)) (get_prop u k) = Inr x
                \<and> map_of m' k = Some x))"
    using Cons.IH[OF d r] by (simp add: same cong: ball_cong)
  then obtain m' where m': "r = Obj m'"
    "\<And>k. k \<notin> set keys \<Longrightarrow> map_of m' k = map_of (AList.update key val m) k"
    "\<And>k. k \<in> set keys \<Longrightarrow> typeof (get_prop u k) \<noteq> T_object \<Longrightarrow> map_of m' k = Some (get_prop u k)"
    "\<And>k. k \<in> set keys \<Longrightarrow> typeof (get_prop u k) = T_object \<Longrightarrow>
          \<exists>x. mergeObjects (or_empty (get_prop (Obj m) k)) (get_prop u k) = Inr x
             \<and> map_of m' k = Some x"
    by blast
  have k1: "map_of m' key = Some val"
    using m'(2)[OF nk] by (simp add: update_conv')
  have "\<forall>k. k \<notin> set (key # keys) \<longrightarrow> map_of m' k = map_of m k"
    using m'(2) by (simp add: update_conv')
  moreover have "\<forall>k \<in> set (key # keys). typeof (get_prop u k) \<noteq> T_object
      \<longrightarrow> map_of m' k = Some (get_prop u k)"
    using m'(3) k1 val(1) by auto
  moreover have "\<forall>k \<in> set (key # keys). typeof (get_prop u k) = T_object \<longrightarrow>
      (\<exists>x. mergeObjects (or_empty (get_prop (Obj m) k)) (get_prop u k) = Inr x
         \<and> map_of m' k = Some x)"
    using m'(4) k1 val(2) by auto
  ultimately show ?case using m'(1) by blast
qed

lemma mergeConfig_Obj:
  "mergeConfig (Obj d) (Obj p) = Inr r \<Longrightarrow>
     cloneable (Obj d) \<and> merge_keys (Obj p) (map fst p) (Obj d) = Inr r"
  by (auto simp: mergeConfig_def structuredClone_def Object_keys_def mergeObjects.simps
      split: if_splits)

lemma validateConfig_merge:
  "validateConfig s = (Inr r, s') \<Longrightarrow> \<not> config_empty (caller_config s) \<Longrightarrow>
     mergeConfig (shared_config s) (caller_config s) = Inr r"
  by (auto simp: validateConfig_def split: if_splits sum.splits option.splits
      dest: check_tab_size_frame)

text \<open>
  C6: when \<^verbatim>\<open>validateConfig\<close> merges a partial configuration that has a recognized key
  onto the default, a field that is an array in both is the default's elements followed by
  the override's, and a field whose override is not an object (a scalar) is the override.
  So \<^verbatim>\<open>{ ignore: ["foo"] }\<close> gives \<^verbatim>\<open>ignore = ["foo"]\<close> on the default of the module,
  whose \<^verbatim>\<open>ignore\<close> is empty, and \<^verbatim>\<open>["bar", "foo"]\<close> on a default whose \<^verbatim>\<open>ignore\<close> is
  \<^verbatim>\<open>["bar"]\<close>.
\<close>

theorem merge_concatenates:
  assumes "validateConfig s = (Inr r, s')"
    and "caller_config s = Obj p" and "distinct (map fst p)" and "\<not> config_empty (Obj p)"
    and "shared_config s = Obj d"
  shows "(\<forall>k xs ds. map_of p k = Some (Arr xs) \<and> map_of d k = Some (Arr ds)
            \<longrightarrow> get_prop r k = Arr (ds @ xs))
       \<and> (\<forall>k v. map_of p k = Some v \<and> typeof v \<noteq> T_object \<longrightarrow> get_prop r k = v)"
proof -
  from assms have "mergeConfig (Obj d) (Obj p) = Inr r"
    using validateConfig_merge by metis
  then have c: "cloneable (Obj d)" and m: "merge_keys (Obj p) (map fst p) (Obj d) = Inr r"
    using mergeConfig_Obj by blast+
  from merge_keys_lookup[OF assms(3) m] obtain m' where m': "r = Obj m'"
    "\<forall>k \<in> set (map fst p). typeof (get_prop (Obj p) k) \<noteq> T_object
        \<longrightarrow> map_of m' k = Some (get_prop (Obj p) k)"
    "\<forall>k \<in> set (map fst p). typeof (get_prop (Obj p) k) = T_object \<longrightarrow>
        (\<exists>x. mergeObjects (or_empty (get_prop (Obj d) k)) (get_prop (Obj p) k) = Inr x
           \<and> map_of m' k = Some x)"
    by blast
  have arrays: "get_prop r k = Arr (ds @ xs)"
    if "map_of p k = Some (Arr xs)" "map_of d k = Some (Arr ds)" for k xs ds
  proof -
    from that(1) have k: "k \<in> set (map fst p)" and g: "get_prop (Obj p) k = Arr xs"
      by (auto simp: get_prop_def dest: map_of_SomeD intro: rev_image_eqI)
    from that(2) c have "cloneable (Arr ds)"
      by (auto dest!: map_of_SomeD)
    with that(2) g have
      "mergeObjects (or_empty (get_prop (Obj d) k)) (get_prop (Obj p) k) = Inr (Arr (ds @ xs))"
      by (simp add: get_prop_def or_empty_def structuredClone_def mergeObjects.simps)
    with m'(3) k g have "map_of m' k = Some (Arr (ds @ xs))"
      by fastforce
    with m'(1) show ?thesis by (simp add: get_prop_def)
  qed
  have scalars: "get_prop r k = v" if "map_of p k = Some v" "typeof v \<noteq> T_object" for k v
  proof -
    from that(1) have k: "k \<in> set (map fst p)" and g: "get_prop (Obj p) k = v"
      by (auto simp: get_prop_def dest: map_of_SomeD intro: rev_image_eqI)
    with m'(2) that(2) have "map_of m' k = Some v" by fastforce
    with m'(1) show ?thesis by (simp add: get_prop_def)
  qed
  from arrays scalars show ?thesis by blast
qed

theorem merge_concatenates_witness:
  "validateConfig (initial_store (Obj [(k_ignore, Arr [Str (str ''foo'')])]))
     = (Inr (set_prop CONFIG k_ignore (Arr [Str (str ''foo'')])),
        initial_store (Obj [(k_ignore, Arr [Str (str ''foo'')])]))
   \<and> distinct (map fst [(k_ignore, Arr [Str (str ''foo'')])])
   \<and> \<not> config_empty (Obj [(k_ignore, Arr [Str (str ''foo'')])])
   \<and> get_prop (set_prop CONFIG k_ignore (Arr [Str (str ''foo'')])) k_ignore
       = Arr ([] @ [Str (str ''foo'')])
   \<and> validateConfig
        \<lparr>caller_config = Obj [(k_ignore, Arr [Str (str ''foo'')]), (k_strict, Bool True)],
         shared_config = Obj [(k_ignore, Arr [Str (str ''bar'')]), (k_strict, Bool False)]\<rparr>
     = (Inr (Obj [(k_ignore, Arr [Str (str ''bar''), Str (str ''foo'')]), (k_strict, Bool True)]),
        \<lparr>caller_config = Obj [(k_ignore, Arr [Str (str ''foo'')]), (k_strict, Bool True)],
         shared_config = Obj [(k_ignore, Arr [Str (str ''bar'')]), (k_strict, Bool False)]\<rparr>)
   \<and> get_prop (Obj [(k_ignore, Arr [Str (str ''bar''), Str (str ''foo'')]), (k_strict, Bool True)])
        k_ignore = Arr ([Str (str ''bar'')] @ [Str (str ''foo'')])
   \<and> get_prop (Obj [(k_ignore, Arr [Str (str ''bar''), Str (str ''foo'')]), (k_strict, Bool True)])
        k_strict = Bool True"
proof -
  let ?p1 = "[(k_ignore, Arr [Str (str ''foo'')])]"
  let ?p2 = "[(k_ignore, Arr [Str (str ''foo'')]), (k_strict, Bool True)]"
  let ?d2 = "[(k_ignore, Arr [Str (str ''bar'')]), (k_strict, Bool False)]"
  let ?s2 = "\<lparr>caller_config = Obj ?p2, shared_config = Obj ?d2\<rparr>"
  let ?r2 = "Obj [(k_ignore, Arr [Str (str ''bar''), Str (str ''foo'')]), (k_strict, Bool True)]"
  have v1: "validateConfig (initial_store (Obj ?p1))
      = (Inr (set_prop CONFIG k_ignore (Arr [Str (str ''foo'')])), initial_store (Obj ?p1))"
    by code_simp
  have c1: "caller_config (initial_store (Obj ?p1)) = Obj ?p1"
    and s1: "shared_config (initial_store (Obj ?p1)) = Obj
     [(k_ignore, Arr []),
      (k_ignore_with, Str (str ''_'' @ ATTRIBUTE_IGNORE_STRING)),
      (k_strict, Bool False),
      (k_tab_size, Num (Fin 2)),
      (k_tag_wrap, Bool False),
      (k_tag_wrap_width, Num (Fin 80)),
      (k_trim, Arr [])]"
    by (simp_all add: initial_store_def CONFIG_def)
  have d1: "distinct (map fst ?p1)" by simp
  have e1: "\<not> config_empty (Obj ?p1)"
    by (simp add: config_empty_def hasOwn_def Object_keys_def)
  have v2: "validateConfig ?s2 = (Inr ?r2, ?s2)"
    by code_simp
  have d2: "distinct (map fst ?p2)" by code_simp
  have e2: "\<not> config_empty (Obj ?p2)"
    by (simp add: config_empty_def hasOwn_def Object_keys_def)
  have m1: "map_of ?p1 k_ignore = Some (Arr [Str (str ''foo'')])" by simp
  have m1': "map_of [(k_ignore, Arr []),
      (k_ignore_with, Str (str ''_'' @ ATTRIBUTE_IGNORE_STRING)),
      (k_strict, Bool False),
      (k_tab_size, Num (Fin 2)),
      (k_tag_wrap, Bool False),
      (k_tag_wrap_width, Num (Fin 80)),
      (k_trim, Arr [])] k_ignore = Some (Arr [])" by simp
  have m2: "map_of ?p2 k_ignore = Some (Arr [Str (str ''foo'')])" by simp
  have m2': "map_of ?d2 k_ignore = Some (Arr [Str (str ''bar'')])" by simp
  have m3: "map_of ?p2 k_strict = Some (Bool True)" by code_simp
  from merge_concatenates [OF v1 c1 d1 e1 s1] m1 m1'
  have r1: "get_prop (set_prop CONFIG k_ignore (Arr [Str (str ''foo'')])) k_ignore
       = Arr ([] @ [Str (str ''foo'')])"
    by blast
  have c2: "caller_config ?s2 = Obj ?p2" and s2: "shared_config ?s2 = Obj ?d2" by simp_all
  from merge_concatenates [OF v2 c2 d2 e2 s2] m2 m2'
  have r2: "get_prop ?r2 k_ignore = Arr ([Str (str ''bar'')] @ [Str (str ''foo'')])"
    by blast
  have "typeof (Bool True) \<noteq> T_object" by simp
  with merge_concatenates [OF v2 c2 d2 e2 s2] m3
  have r3: "get_prop ?r2 k_strict = Bool True"
    by blast
  from v1 d1 e1 r1 v2 r2 r3 show ?thesis by blast
qed




















end
